theory Spec2Isabelle
  imports Complex_Main "HOL-Library.AList" "HOL-Library.Multiset"
begin

section \<open>JavaScript numbers\<close>

text \<open>
  A JavaScript \<open>number\<close> is a finite value, one of the two infinities, or NaN.
  Finite values are kept as exact rationals: rounding to double precision, overflow of
  a finite result and the sign of zero are not part of this model. Everything the
  provider does with numbers is one subtraction, one division and one comparison
  with \<open>0\<close>, and the properties below are about which of the four kinds of value
  comes out and about the formula that is applied, not about its rounding.
\<close>

datatype number = Fin rat | PosInf | NegInf | NaN

text \<open>\<open>a - b\<close> on numbers.\<close>

fun jsub :: "number \<Rightarrow> number \<Rightarrow> number" where
  "jsub NaN _ = NaN"
| "jsub _ NaN = NaN"
| "jsub (Fin a) (Fin b) = Fin (a - b)"
| "jsub (Fin a) PosInf = NegInf"
| "jsub (Fin a) NegInf = PosInf"
| "jsub PosInf PosInf = NaN"
| "jsub PosInf _ = PosInf"
| "jsub NegInf NegInf = NaN"
| "jsub NegInf _ = NegInf"

text \<open>
  \<open>a / b\<close> on numbers. A zero divisor is read as \<open>+0\<close>; the provider never divides
  by zero (it tests the divisor first), so that branch is only there for totality.
\<close>

fun jdiv :: "number \<Rightarrow> number \<Rightarrow> number" where
  "jdiv NaN _ = NaN"
| "jdiv _ NaN = NaN"
| "jdiv (Fin a) (Fin b) =
     (if b = 0 then (if a = 0 then NaN else if 0 < a then PosInf else NegInf)
      else Fin (a / b))"
| "jdiv (Fin a) _ = Fin 0"
| "jdiv PosInf (Fin b) = (if 0 \<le> b then PosInf else NegInf)"
| "jdiv NegInf (Fin b) = (if 0 \<le> b then NegInf else PosInf)"
| "jdiv _ _ = NaN"

text \<open>Unary minus, used by \<open>parseFloat\<close> for a leading \<open>-\<close>.\<close>

fun jneg :: "number \<Rightarrow> number" where
  "jneg (Fin a) = Fin (- a)"
| "jneg PosInf = NegInf"
| "jneg NegInf = PosInf"
| "jneg NaN = NaN"

text \<open>\<open>Number.isFinite\<close>: neither an infinity nor NaN.\<close>

fun isFinite :: "number \<Rightarrow> bool" where
  "isFinite (Fin _) = True"
| "isFinite _ = False"

section \<open>Price records and daily returns\<close>

text \<open>
  A \<open>Date\<close> object holds a time value: an integral number of milliseconds since the
  epoch, or NaN for an Invalid Date. \<open>None\<close> is the Invalid Date.
\<close>

type_synonym Date = "int option"

fun getTime :: "Date \<Rightarrow> number" where
  "getTime None = NaN"
| "getTime (Some t) = Fin (of_int t)"

record PriceRecord =
  date :: Date
  price :: number

text \<open>
  The body of the loop of \<open>calculateDailyReturns\<close>: the value pushed for yesterday's
  and today's price.
\<close>

definition dailyReturn :: "number \<Rightarrow> number \<Rightarrow> number" where
  "dailyReturn yesterdayPrice todayPrice =
     (if yesterdayPrice = Fin 0 then Fin 0
      else jdiv (jsub todayPrice yesterdayPrice) yesterdayPrice)"

text \<open>
  \<open>for (let i = 1; i < prices.length; i++) { ... returns.push(...) }\<close> as a function
  of the index and the array built so far.
\<close>

function returnsLoop :: "PriceRecord list \<Rightarrow> nat \<Rightarrow> number list \<Rightarrow> number list" where
  "returnsLoop prices i returns =
     (if i < length prices
      then returnsLoop prices (i + 1)
             (returns @ [dailyReturn (price (prices ! (i - 1))) (price (prices ! i))])
      else returns)"
  by pat_completeness auto
termination
  by (relation "measure (\<lambda>(prices, i, returns). length prices - i)") auto

declare returnsLoop.simps [simp del]

definition calculateDailyReturns :: "PriceRecord list \<Rightarrow> number list" where
  "calculateDailyReturns prices = returnsLoop prices 1 []"

section \<open>Strings: \<open>split\<close>, array destructuring, \<open>parseFloat\<close>\<close>

text \<open>
  \<open>str.split(sep)\<close> for a one-character separator: the pieces between the
  separators, in order; a string without the separator, the empty string included,
  gives one piece. \<open>cur\<close> is the piece being read.
\<close>

fun splitFrom :: "char \<Rightarrow> string \<Rightarrow> string \<Rightarrow> string list" where
  "splitFrom sep cur [] = [cur]"
| "splitFrom sep cur (c # cs) =
     (if c = sep then cur # splitFrom sep [] cs else splitFrom sep (cur @ [c]) cs)"

definition jsSplit :: "char \<Rightarrow> string \<Rightarrow> string list" where
  "jsSplit sep str = splitFrom sep [] str"

text \<open>
  \<open>const [a, b, c] = arr\<close> reads \<open>arr[0]\<close>, \<open>arr[1]\<close>, \<open>arr[2]\<close>; an index past
  the end reads \<open>undefined\<close>, which is \<open>None\<close> here.
\<close>

fun element :: "'a list \<Rightarrow> nat \<Rightarrow> 'a option" where
  "element [] _ = None"
| "element (x # xs) 0 = Some x"
| "element (x # xs) (Suc n) = element xs n"

text \<open>Truthiness of a string or \<open>undefined\<close>: only \<open>undefined\<close> and \<open>""\<close> are falsy.\<close>

fun truthy :: "string option \<Rightarrow> bool" where
  "truthy None = False"
| "truthy (Some s) = (s \<noteq> [])"

definition isDigit :: "char \<Rightarrow> bool" where
  "isDigit c = ((of_char CHR ''0'' :: nat) \<le> of_char c \<and> (of_char c :: nat) \<le> of_char CHR ''9'')"

definition isWhiteSpace :: "char \<Rightarrow> bool" where
  "isWhiteSpace c = (c \<in> {CHR 0x09, CHR 0x0A, CHR 0x0B, CHR 0x0C, CHR 0x0D, CHR '' ''})"

definition digitValue :: "char \<Rightarrow> nat" where
  "digitValue c = of_char c - of_char CHR ''0''"

definition digitsValue :: "string \<Rightarrow> nat" where
  "digitsValue ds = foldl (\<lambda>n c. 10 * n + digitValue c) 0 ds"

definition scale10 :: "rat \<Rightarrow> int \<Rightarrow> rat" where
  "scale10 x e = (if 0 \<le> e then x * 10 ^ nat e else x / 10 ^ nat (- e))"

text \<open>
  The exponent part of a decimal literal, read from what follows the mantissa:
  \<open>e\<close> or \<open>E\<close>, an optional sign and at least one digit; anything else is not an
  exponent part and is left unread.
\<close>

definition exponentPart :: "string \<Rightarrow> int" where
  "exponentPart s =
     (case s of
        [] \<Rightarrow> 0
      | c # r \<Rightarrow>
          if c = CHR ''e'' \<or> c = CHR ''E'' then
            (case r of
               [] \<Rightarrow> 0
             | g # ds \<Rightarrow>
                 if g = CHR ''+'' then
                   (if takeWhile isDigit ds = [] then 0
                    else int (digitsValue (takeWhile isDigit ds)))
                 else if g = CHR ''-'' then
                   (if takeWhile isDigit ds = [] then 0
                    else - int (digitsValue (takeWhile isDigit ds)))
                 else
                   (if takeWhile isDigit r = [] then 0
                    else int (digitsValue (takeWhile isDigit r))))
          else 0)"

text \<open>
  The longest prefix that is an unsigned decimal literal (\<open>Infinity\<close>, \<open>12\<close>,
  \<open>12.\<close>, \<open>12.5\<close>, \<open>.5\<close>, each of the last four with an optional exponent part),
  and its value; NaN when no prefix is one.
\<close>

definition strUnsignedDecimal :: "string \<Rightarrow> number" where
  "strUnsignedDecimal s =
     (if take 8 s = ''Infinity'' then PosInf
      else
        (let ip = takeWhile isDigit s;
             r1 = dropWhile isDigit s;
             dot = (r1 \<noteq> [] \<and> hd r1 = CHR ''.'');
             fp = (if dot then takeWhile isDigit (tl r1) else []);
             r2 = (if dot then dropWhile isDigit (tl r1) else r1)
         in if ip = [] \<and> fp = [] then NaN
            else Fin (scale10 (of_nat (digitsValue (ip @ fp)) / 10 ^ length fp)
                              (exponentPart r2))))"

text \<open>
  \<open>parseFloat(str)\<close>: leading white space is dropped, then the longest prefix that
  is a signed decimal literal is read; the rest of the string is ignored, and a string
  with no such prefix gives NaN.
\<close>

definition parseFloat :: "string \<Rightarrow> number" where
  "parseFloat str =
     (let t = dropWhile isWhiteSpace str
      in case t of
           [] \<Rightarrow> NaN
         | c # r \<Rightarrow>
             if c = CHR ''-'' then jneg (strUnsignedDecimal r)
             else if c = CHR ''+'' then strUnsignedDecimal r
             else strUnsignedDecimal t)"

section \<open>\<open>Map\<close> objects\<close>

text \<open>
  A JavaScript \<open>Map\<close> keeps its entries in insertion order and has one entry for a
  key: an association list with distinct keys. \<open>set\<close> replaces the value of a key
  that is present, where it stands, and appends a new key at the end, which is what
  \<^const>\<open>AList.update\<close> does.
\<close>

type_synonym ('k, 'v) jsMap = "('k \<times> 'v) list"

definition mapGet :: "('k, 'v) jsMap \<Rightarrow> 'k \<Rightarrow> 'v option" where
  "mapGet m k = map_of m k"

definition mapHas :: "('k, 'v) jsMap \<Rightarrow> 'k \<Rightarrow> bool" where
  "mapHas m k = (map_of m k \<noteq> None)"

definition mapSet :: "'k \<Rightarrow> 'v \<Rightarrow> ('k, 'v) jsMap \<Rightarrow> ('k, 'v) jsMap" where
  "mapSet k v m = AList.update k v m"

definition mapKeys :: "('k, 'v) jsMap \<Rightarrow> 'k list" where
  "mapKeys m = map fst m"

section \<open>\<open>Array.prototype.sort\<close> with a comparator\<close>

text \<open>
  \<open>arr.sort(cmp)\<close> puts \<open>a\<close> after \<open>b\<close> when \<open>cmp(a, b) > 0\<close>, before it when
  \<open>cmp(a, b) < 0\<close>, and treats any other result, NaN included, as "equal". It is a
  stable sort, so for a consistent comparator the result is determined, whatever the
  algorithm; insertion from the right is the algorithm written here. When the
  comparator is not consistent (here: when a record has an Invalid Date and the
  comparator returns NaN for it) the language leaves the order to the implementation,
  and no property below that depends on the order is stated for that case.
\<close>

fun isPositive :: "number \<Rightarrow> bool" where
  "isPositive (Fin r) = (0 < r)"
| "isPositive PosInf = True"
| "isPositive _ = False"

fun insertBy :: "('a \<Rightarrow> 'a \<Rightarrow> number) \<Rightarrow> 'a \<Rightarrow> 'a list \<Rightarrow> 'a list" where
  "insertBy cmp x [] = [x]"
| "insertBy cmp x (y # ys) =
     (if isPositive (cmp x y) then y # insertBy cmp x ys else x # y # ys)"

definition sortBy :: "('a \<Rightarrow> 'a \<Rightarrow> number) \<Rightarrow> 'a list \<Rightarrow> 'a list" where
  "sortBy cmp xs = foldr (insertBy cmp) xs []"

text \<open>\<open>(a, b) => a.date.getTime() - b.date.getTime()\<close>\<close>

definition byDate :: "PriceRecord \<Rightarrow> PriceRecord \<Rightarrow> number" where
  "byDate a b = jsub (getTime (date a)) (getTime (date b))"

section \<open>The provider: \<open>parseCsvData\<close> and \<open>getHistoricalData\<close>\<close>

text \<open>
  \<open>new Date(dateStr)\<close> is a parameter \<open>parseDate\<close> of the model: outside the ISO
  formats the language leaves date parsing to the implementation. Every property of
  the provider below holds for every such function.

  One data row. \<open>None\<close> is a row that the loop skips with \<open>continue\<close>; otherwise the
  symbol and the record that the row contributes.
\<close>

definition rowRecord :: "(string \<Rightarrow> Date) \<Rightarrow> string \<Rightarrow> (string \<times> PriceRecord) option" where
  "rowRecord parseDate row =
     (if row = [] then None
      else
        (let fields = jsSplit CHR '','' row;
             dateStr = element fields 0;
             symbol = element fields 1;
             priceStr = element fields 2
         in if \<not> truthy dateStr \<or> \<not> truthy symbol \<or> \<not> truthy priceStr then None
            else
              (case (dateStr, symbol, priceStr) of
                 (Some d, Some s, Some p) \<Rightarrow>
                   Some (s, \<lparr>date = parseDate d, price = parseFloat p\<rparr>)
               | _ \<Rightarrow> None)))"

text \<open>
  \<open>if (!data.has(symbol)) data.set(symbol, []); data.get(symbol)?.push(record);\<close>
  The array is shared with the map, so the push shows in the map's entry.
\<close>

definition pushRecord ::
  "string \<Rightarrow> PriceRecord \<Rightarrow> (string, PriceRecord list) jsMap \<Rightarrow> (string, PriceRecord list) jsMap"
where
  "pushRecord symbol record data =
     (let data1 = (if \<not> mapHas data symbol then mapSet symbol [] data else data)
      in case mapGet data1 symbol of
           None \<Rightarrow> data1
         | Some arr \<Rightarrow> mapSet symbol (arr @ [record]) data1)"

text \<open>\<open>for (const row of rows) { ... }\<close>\<close>

fun rowsLoop ::
  "(string \<Rightarrow> Date) \<Rightarrow> (string, PriceRecord list) jsMap \<Rightarrow> string list
     \<Rightarrow> (string, PriceRecord list) jsMap"
where
  "rowsLoop parseDate data [] = data"
| "rowsLoop parseDate data (row # rows) =
     rowsLoop parseDate
       (case rowRecord parseDate row of
          None \<Rightarrow> data
        | Some (symbol, record) \<Rightarrow> pushRecord symbol record data)
       rows"

text \<open>\<open>for (const symbol of data.keys()) data.get(symbol)?.sort(...)\<close>\<close>

fun sortLoop ::
  "(string, PriceRecord list) jsMap \<Rightarrow> string list \<Rightarrow> (string, PriceRecord list) jsMap"
where
  "sortLoop data [] = data"
| "sortLoop data (symbol # symbols) =
     sortLoop
       (case mapGet data symbol of
          None \<Rightarrow> data
        | Some arr \<Rightarrow> mapSet symbol (sortBy byDate arr) data)
       symbols"

text \<open>
  \<open>fs.readFileSync\<close> either returns the content of the file or throws; its outcome
  is the input \<open>file\<close> of the model. \<open>tryBody\<close> is the \<open>try\<close> block: reading the file
  is the only statement in it that can throw.
\<close>

datatype error = IOError | CallRejected | EngineError

definition tryBody ::
  "(string \<Rightarrow> Date) \<Rightarrow> error + string \<Rightarrow> error + (string, PriceRecord list) jsMap"
where
  "tryBody parseDate file =
     (case file of
        Inl e \<Rightarrow> Inl e
      | Inr fileContent \<Rightarrow>
          (let rows = drop 1 (jsSplit CHR 0x0A fileContent);
               data = rowsLoop parseDate [] rows
           in Inr (sortLoop data (mapKeys data))))"

text \<open>The \<open>catch\<close> block returns a new, empty map.\<close>

definition parseCsvData ::
  "(string \<Rightarrow> Date) \<Rightarrow> error + string \<Rightarrow> (string, PriceRecord list) jsMap"
where
  "parseCsvData parseDate file =
     (case tryBody parseDate file of
        Inl e \<Rightarrow> []
      | Inr data \<Rightarrow> data)"

text \<open>
  An instrument. The type declaration is in a module that is not part of the sources;
  the code reads \<open>id\<close>, \<open>symbol\<close> and \<open>included\<close>, and \<open>details\<close> stands for
  whatever other fields the declaration has.
\<close>

record 'a Instrument =
  inst_id :: string
  symbol :: string
  included :: bool
  details :: 'a

text \<open>\<open>for (const instrument of instruments) { ... }\<close> in \<open>getHistoricalData\<close>\<close>

fun instrumentsLoop ::
  "(string, PriceRecord list) jsMap \<Rightarrow> (string, number list) jsMap \<Rightarrow> 'a Instrument list
     \<Rightarrow> (string, number list) jsMap"
where
  "instrumentsLoop allPriceData returnsData [] = returnsData"
| "instrumentsLoop allPriceData returnsData (instrument # instruments) =
     instrumentsLoop allPriceData
       (case mapGet allPriceData (symbol instrument) of
          None \<Rightarrow> mapSet (symbol instrument) [] returnsData
        | Some instrumentPrices \<Rightarrow>
            if 1 < length instrumentPrices
            then mapSet (symbol instrument) (calculateDailyReturns instrumentPrices) returnsData
            else mapSet (symbol instrument) [] returnsData)
       instruments"

definition getHistoricalData ::
  "(string \<Rightarrow> Date) \<Rightarrow> error + string \<Rightarrow> 'a Instrument list \<Rightarrow> (string, number list) jsMap"
where
  "getHistoricalData parseDate file instruments =
     instrumentsLoop (parseCsvData parseDate file) [] instruments"

section \<open>A date parser for concrete inputs\<close>

text \<open>
  The date-only ISO form \<open>YYYY-MM-DD\<close>, which \<open>new Date\<close> reads as midnight UTC of
  that day. This is the instance of \<open>parseDate\<close> used where a property is evaluated
  on concrete rows, all of whose dates have this form and name a day that exists;
  nothing is said here about how \<open>new Date\<close> reads any other string.
\<close>

definition isLeapYear :: "int \<Rightarrow> bool" where
  "isLeapYear y = (y mod 4 = 0 \<and> (y mod 100 \<noteq> 0 \<or> y mod 400 = 0))"

definition daysInMonth :: "int \<Rightarrow> int \<Rightarrow> int" where
  "daysInMonth y m =
     (if m = 2 then (if isLeapYear y then 29 else 28)
      else if m = 4 \<or> m = 6 \<or> m = 9 \<or> m = 11 then 30 else 31)"

text \<open>Days from 1970-01-01 to the given day of the proleptic Gregorian calendar.\<close>

definition daysFromCivil :: "int \<Rightarrow> int \<Rightarrow> int \<Rightarrow> int" where
  "daysFromCivil y m d =
     (let y1 = (if m \<le> 2 then y - 1 else y);
          era = y1 div 400;
          yoe = y1 - era * 400;
          doy = (153 * (if 2 < m then m - 3 else m + 9) + 2) div 5 + d - 1;
          doe = yoe * 365 + yoe div 4 - yoe div 100 + doy
      in era * 146097 + doe - 719468)"

definition isoDate :: "string \<Rightarrow> Date" where
  "isoDate s =
     (if length s = 10 \<and> list_all isDigit (take 4 s) \<and> s ! 4 = CHR ''-''
         \<and> list_all isDigit (take 2 (drop 5 s)) \<and> s ! 7 = CHR ''-''
         \<and> list_all isDigit (drop 8 s)
      then
        (let y = int (digitsValue (take 4 s));
             m = int (digitsValue (take 2 (drop 5 s)));
             d = int (digitsValue (drop 8 s))
         in if 1 \<le> m \<and> m \<le> 12 \<and> 1 \<le> d \<and> d \<le> daysInMonth y m
            then Some (daysFromCivil y m d * 86400000)
            else None)
      else None)"

section \<open>The page: instrument list and calculation\<close>

text \<open>
  \<open>getHistoricalDataOnClient\<close> awaits the server function and turns the map into
  the array of its entries. Seen from the client the call either delivers the map or
  is rejected; \<open>server\<close> is that call.
\<close>

definition getHistoricalDataOnClient ::
  "('a Instrument list \<Rightarrow> error + (string, number list) jsMap) \<Rightarrow> 'a Instrument list
     \<Rightarrow> error + (string \<times> number list) list"
where
  "getHistoricalDataOnClient server instruments =
     (case server instruments of
        Inl e \<Rightarrow> Inl e
      | Inr data \<Rightarrow> Inr data)"

text \<open>\<open>new Map(entries)\<close> sets the entries one after the other.\<close>

definition newMap :: "('k \<times> 'v) list \<Rightarrow> ('k, 'v) jsMap" where
  "newMap entries = foldl (\<lambda>m (k, v). mapSet k v m) [] entries"

text \<open>
  The state of the page component: its four \<open>useState\<close> cells, and two logs of what
  the handlers do besides writing the state: the notifications shown (\<open>toast\<close>) and
  the invocations of the VaR engine, each with its three arguments.
\<close>

datatype Toast = Toast (title: string) (description: string) (variant: string)

record ('a, 'r) PageState =
  simulationMethod :: string
  instruments :: "'a Instrument list"
  varResults :: "'r option"
  isCalculating :: bool
  toasts :: "Toast list"
  engineCalls :: "('a Instrument list \<times> (string, number list) jsMap \<times> string) list"

definition initialState :: "('a, 'r) PageState" where
  "initialState =
     \<lparr>simulationMethod = ''parametric'', instruments = [], varResults = None,
      isCalculating = False, toasts = [], engineCalls = []\<rparr>"

text \<open>The argument of \<open>addInstrument\<close>: an instrument without \<open>id\<close> and \<open>included\<close>.\<close>

record 'a NewInstrument =
  new_symbol :: string
  new_details :: 'a

text \<open>
  The handlers. \<open>addInstrument\<close> looks for the symbol in \<open>instruments\<close>, the list
  of the render in which the handler was created, and appends with
  \<open>setInstruments(prev => ...)\<close> to the list of the state at the time of the update:
  \<open>rendered\<close> is the former, \<open>instruments st\<close> the latter. A handler that the page
  passes down after rendering the state \<open>st\<close> is \<open>addInstrument (instruments st)\<close>.
  \<open>uuid\<close> is the result of \<open>crypto.randomUUID()\<close>.
\<close>

definition addInstrument ::
  "'a Instrument list \<Rightarrow> string \<Rightarrow> 'a NewInstrument \<Rightarrow> ('a, 'r) PageState
     \<Rightarrow> ('a, 'r) PageState"
where
  "addInstrument rendered uuid instrument st =
     (case find (\<lambda>inst. symbol inst = new_symbol instrument) rendered of
        Some existingInstrument \<Rightarrow>
          st\<lparr>toasts := toasts st @
                [Toast ''Instrument Exists''
                   (''An instrument with the symbol '' @ new_symbol instrument
                      @ '' is already in the portfolio.'')
                   ''destructive'']\<rparr>
      | None \<Rightarrow>
          st\<lparr>instruments := instruments st @
                [\<lparr>inst_id = uuid, symbol = new_symbol instrument, included = True,
                  details = new_details instrument\<rparr>]\<rparr>)"

definition removeInstrument :: "string \<Rightarrow> ('a, 'r) PageState \<Rightarrow> ('a, 'r) PageState" where
  "removeInstrument ident st =
     st\<lparr>instruments := filter (\<lambda>inst. inst_id inst \<noteq> ident) (instruments st)\<rparr>"

definition toggleInstrument :: "string \<Rightarrow> ('a, 'r) PageState \<Rightarrow> ('a, 'r) PageState" where
  "toggleInstrument ident st =
     st\<lparr>instruments :=
          map (\<lambda>inst. if inst_id inst = ident then inst\<lparr>included := \<not> included inst\<rparr> else inst)
              (instruments st)\<rparr>"

text \<open>
  The runs of the page. \<open>reachable rendered st\<close>: the page can be in the state \<open>st\<close>
  with \<open>rendered\<close> the list of instruments of its last render, which is the list the
  handlers in the hands of the child components close over. The page starts with the
  empty list, rendered. A handler call changes the state and not the rendered list;
  a render takes the list of the current state. Any number of handler calls can come
  between two renders.
\<close>

inductive reachable :: "'a Instrument list \<Rightarrow> ('a, 'r) PageState \<Rightarrow> bool" where
  initial: "instruments st = [] \<Longrightarrow> reachable [] st"
| render: "reachable rendered st \<Longrightarrow> reachable (instruments st) st"
| add: "reachable rendered st \<Longrightarrow> reachable rendered (addInstrument rendered uuid instrument st)"
| remove: "reachable rendered st \<Longrightarrow> reachable rendered (removeInstrument ident st)"
| toggle: "reachable rendered st \<Longrightarrow> reachable rendered (toggleInstrument ident st)"

text \<open>The \<open>catch\<close> block of \<open>runCalculation\<close>.\<close>

definition calculationError :: "('a, 'r) PageState \<Rightarrow> ('a, 'r) PageState" where
  "calculationError st =
     st\<lparr>toasts := toasts st @
           [Toast ''Calculation Error''
              (''Could not complete the VaR calculation. ''
                 @ ''Check if the data file is present and correctly formatted.'')
              ''destructive'']\<rparr>"

text \<open>
  \<open>runCalculation\<close>. The VaR engine \<open>calculateVaR\<close> is in a module that is not part
  of the sources and is a parameter; it returns a result or throws. The \<open>finally\<close>
  block resets \<open>isCalculating\<close> on every path.
\<close>

definition runCalculation ::
  "('a Instrument list \<Rightarrow> error + (string, number list) jsMap)
     \<Rightarrow> ('a Instrument list \<Rightarrow> (string, number list) jsMap \<Rightarrow> string \<Rightarrow> error + 'r)
     \<Rightarrow> ('a, 'r) PageState \<Rightarrow> ('a, 'r) PageState"
where
  "runCalculation server calculateVaR st =
     (let st1 = st\<lparr>isCalculating := True\<rparr>;
          activeInstruments = filter included (instruments st1)
      in if length activeInstruments = 0
         then (st1\<lparr>varResults := None\<rparr>)\<lparr>isCalculating := False\<rparr>
         else
           (case getHistoricalDataOnClient server activeInstruments of
              Inl e \<Rightarrow> (calculationError st1)\<lparr>isCalculating := False\<rparr>
            | Inr historicalDataArray \<Rightarrow>
                (let historicalData = newMap historicalDataArray;
                     st2 = st1\<lparr>engineCalls := engineCalls st1 @
                             [(activeInstruments, historicalData, simulationMethod st1)]\<rparr>
                 in case calculateVaR activeInstruments historicalData (simulationMethod st1) of
                      Inl e \<Rightarrow> (calculationError st2)\<lparr>isCalculating := False\<rparr>
                    | Inr results \<Rightarrow>
                        (st2\<lparr>varResults := Some results\<rparr>)\<lparr>isCalculating := False\<rparr>)))"

section \<open>Notions used to state the properties\<close>

text \<open>A price list with a zero in the middle, for evaluating the return calculation.\<close>

definition examplePrices :: "PriceRecord list" where
  "examplePrices =
     [\<lparr>date = Some 0, price = Fin 100\<rparr>,
      \<lparr>date = Some 86400000, price = Fin 0\<rparr>,
      \<lparr>date = Some 172800000, price = Fin 50\<rparr>]"

text \<open>
  The value that one pass of the loop of \<open>getHistoricalData\<close> stores under a symbol:
  both branches of the \<open>if\<close> store under the same key.
\<close>

definition seriesFor :: "(string, PriceRecord list) jsMap \<Rightarrow> string \<Rightarrow> number list" where
  "seriesFor allPriceData s =
     (case mapGet allPriceData s of
        None \<Rightarrow> []
      | Some instrumentPrices \<Rightarrow>
          if 1 < length instrumentPrices then calculateDailyReturns instrumentPrices else [])"

text \<open>
  The data rows of a file: its lines without the first one
  (\<open>fileContent.split('\n').slice(1)\<close>).
\<close>

definition dataRows :: "string \<Rightarrow> string list" where
  "dataRows fileContent = drop 1 (jsSplit CHR 0x0A fileContent)"

text \<open>The symbol and record of every row that is not skipped, in the order of the rows.\<close>

definition rowRecords :: "(string \<Rightarrow> Date) \<Rightarrow> string list \<Rightarrow> (string \<times> PriceRecord) list" where
  "rowRecords parseDate rows = List.map_filter (rowRecord parseDate) rows"

text \<open>The observations of one symbol among them, in the order of the rows.\<close>

definition observations :: "(string \<times> PriceRecord) list \<Rightarrow> string \<Rightarrow> PriceRecord list" where
  "observations recs s = map snd (filter (\<lambda>kv. fst kv = s) recs)"

text \<open>
  The parsed price history of a symbol: the array under it in the map that
  \<open>parseCsvData\<close> returns, and no observation at all when the symbol is not a key.
\<close>

definition priceHistory :: "(string \<Rightarrow> Date) \<Rightarrow> error + string \<Rightarrow> string \<Rightarrow> PriceRecord list" where
  "priceHistory parseDate file s =
     (case mapGet (parseCsvData parseDate file) s of
        None \<Rightarrow> []
      | Some instrumentPrices \<Rightarrow> instrumentPrices)"

text \<open>\<open>lines.join('\n')\<close>: the file that has the given lines.\<close>

fun joinLines :: "string list \<Rightarrow> string" where
  "joinLines [] = []"
| "joinLines [l] = l"
| "joinLines (l # ls) = l @ CHR 0x0A # joinLines ls"

text \<open>
  The symbols that the rows of the source have records for; none when the source
  cannot be read.
\<close>

definition sourceSymbols :: "(string \<Rightarrow> Date) \<Rightarrow> error + string \<Rightarrow> string list" where
  "sourceSymbols parseDate file =
     (case file of
        Inl e \<Rightarrow> []
      | Inr fileContent \<Rightarrow> map fst (rowRecords parseDate (dataRows fileContent)))"

text \<open>
  A file with three observations of \<open>A\<close>, one of \<open>B\<close> and none of \<open>C\<close>, in which
  no symbol has two rows with the same date, and the three instruments.
\<close>

definition exampleRows :: "string list" where
  "exampleRows = [''2024-01-01,A,100'', ''2024-01-02,A,105'', ''2024-01-01,B,7'', ''2024-01-03,A,98.7'']"

definition exampleFile :: string where
  "exampleFile = joinLines (''date,symbol,price'' # exampleRows)"

definition instrumentOf :: "string \<Rightarrow> string \<Rightarrow> unit Instrument" where
  "instrumentOf ident s = \<lparr>inst_id = ident, symbol = s, included = True, details = ()\<rparr>"

definition exampleInstruments :: "unit Instrument list" where
  "exampleInstruments = [instrumentOf ''1'' ''A'', instrumentOf ''2'' ''B'', instrumentOf ''3'' ''C'']"

text \<open>
  A field of a row is missing when the row has no such comma-separated piece or the
  piece is empty; a row is incomplete when its date, symbol or price field is missing.
\<close>

definition fieldMissing :: "string \<Rightarrow> nat \<Rightarrow> bool" where
  "fieldMissing row i =
     (case element (jsSplit CHR '','' row) i of None \<Rightarrow> True | Some f \<Rightarrow> f = [])"

definition incompleteRow :: "string \<Rightarrow> bool" where
  "incompleteRow row = (fieldMissing row 0 \<or> fieldMissing row 1 \<or> fieldMissing row 2)"

text \<open>A file whose first data row has a price field that is not a number.\<close>

definition nonNumericFile :: string where
  "nonNumericFile = joinLines [''date,symbol,price'', ''2024-01-01,A,abc'', ''2024-01-02,A,100'']"

text \<open>Three data rows of \<open>A\<close> in chronological order, the first two on the same day.\<close>

definition sameDayRows :: "string list" where
  "sameDayRows = [''2024-01-01,A,100'', ''2024-01-01,A,200'', ''2024-01-02,A,300'']"

text \<open>
  Page states: one instrument \<open>A\<close>; the same with \<open>A\<close> not included; the same
  again with a result left from an earlier calculation. And an engine and a server
  function to run the calculation with.
\<close>

definition portfolioA :: "(unit, nat) PageState" where
  "portfolioA =
     addInstrument (instruments (initialState :: (unit, nat) PageState)) ''u1''
       \<lparr>new_symbol = ''A'', new_details = ()\<rparr> initialState"

text \<open>
  The state after a second call, for the same symbol, of the handler of the initial
  render: the page has not rendered since the first call.
\<close>

definition twoAdds :: "(unit, nat) PageState" where
  "twoAdds =
     addInstrument (instruments (initialState :: (unit, nat) PageState)) ''u2''
       \<lparr>new_symbol = ''A'', new_details = ()\<rparr> portfolioA"

definition excludedState :: "(unit, nat) PageState" where
  "excludedState = toggleInstrument ''u1'' portfolioA"

definition staleState :: "(unit, nat) PageState" where
  "staleState = excludedState\<lparr>varResults := Some 7\<rparr>"

definition exampleServer :: "unit Instrument list \<Rightarrow> error + (string, number list) jsMap" where
  "exampleServer instrs = Inr (getHistoricalData isoDate (Inr exampleFile) instrs)"

definition exampleEngine ::
  "unit Instrument list \<Rightarrow> (string, number list) jsMap \<Rightarrow> string \<Rightarrow> error + nat"
where
  "exampleEngine instrs returnsData method = Inr (length instrs)"

section \<open>Properties of the return calculation\<close>

lemma returnsLoop_length:
  "length (returnsLoop prices i returns) = length returns + (length prices - i)"
proof (induction prices i returns rule: returnsLoop.induct)
  case (1 prices i returns)
  show ?case
  proof (cases "i < length prices")
    case True
    with 1 show ?thesis
      by (subst returnsLoop.simps) simp
  next
    case False
    then show ?thesis
      by (subst returnsLoop.simps) simp
  qed
qed

lemma returnsLoop_nth:
  "k < length returns + (length prices - i) \<Longrightarrow>
   returnsLoop prices i returns ! k =
     (if k < length returns then returns ! k
      else dailyReturn (price (prices ! (i + (k - length returns) - 1)))
                       (price (prices ! (i + (k - length returns)))))"
proof (induction prices i returns rule: returnsLoop.induct)
  case (1 prices i returns)
  show ?case
  proof (cases "i < length prices")
    case True
    let ?r = "returns @ [dailyReturn (price (prices ! (i - 1))) (price (prices ! i))]"
    have step: "returnsLoop prices i returns = returnsLoop prices (i + 1) ?r"
      using True by (subst returnsLoop.simps) simp
    have bound: "k < length ?r + (length prices - (i + 1))"
      using "1.prems" True by simp
    note ih = "1.IH" [OF True bound]
    show ?thesis
    proof (cases "k < length returns")
      case True
      then show ?thesis
        using ih step by (simp add: nth_append)
    next
      case False
      show ?thesis
      proof (cases "k = length returns")
        case True
        then show ?thesis
          using ih step by (simp add: nth_append)
      next
        case neq: False
        with False have gt: "length returns < k" by simp
        then have idx: "i + 1 + (k - length ?r) = i + (k - length returns)"
          by simp
        from gt have "\<not> k < length ?r" by simp
        then show ?thesis
          using ih step False idx by simp
      qed
    qed
  next
    case False
    then show ?thesis
      using "1.prems" by (subst returnsLoop.simps) simp
  qed
qed

lemma calculateDailyReturns_length:
  "length (calculateDailyReturns prices) = length prices - 1"
  by (simp add: calculateDailyReturns_def returnsLoop_length)

lemma calculateDailyReturns_nth:
  "1 \<le> i \<Longrightarrow> i < length prices \<Longrightarrow>
   calculateDailyReturns prices ! (i - 1) =
     dailyReturn (price (prices ! (i - 1))) (price (prices ! i))"
  by (simp add: calculateDailyReturns_def returnsLoop_nth)

text \<open>
  C1. For every price list and every index \<open>i \<ge> 1\<close> inside it, the return at position
  \<open>i - 1\<close> is \<open>(price[i] - price[i-1]) / price[i-1]\<close> when \<open>price[i-1]\<close> is not \<open>0\<close>,
  and it is exactly \<open>0\<close> when \<open>price[i-1]\<close> is \<open>0\<close>; a zero previous price therefore
  gives a finite return, neither an infinity nor NaN. The list need not even be sorted.
\<close>

theorem C1_daily_return_formula:
  assumes "1 \<le> i" and "i < length prices"
  shows "(price (prices ! (i - 1)) \<noteq> Fin 0 \<longrightarrow>
            calculateDailyReturns prices ! (i - 1) =
              jdiv (jsub (price (prices ! i)) (price (prices ! (i - 1))))
                   (price (prices ! (i - 1))))
       \<and> (price (prices ! (i - 1)) = Fin 0 \<longrightarrow>
            calculateDailyReturns prices ! (i - 1) = Fin 0
          \<and> isFinite (calculateDailyReturns prices ! (i - 1)))"
  using calculateDailyReturns_nth [OF assms] by (simp add: dailyReturn_def)

theorem C1_daily_return_formula_witness:
  "(1::nat) \<le> 1 \<and> 1 < length examplePrices \<and> (1::nat) \<le> 2 \<and> 2 < length examplePrices
   \<and> price (examplePrices ! (1 - 1)) \<noteq> Fin 0
   \<and> calculateDailyReturns examplePrices ! (1 - 1) = Fin (- 1)
   \<and> price (examplePrices ! (2 - 1)) = Fin 0
   \<and> calculateDailyReturns examplePrices ! (2 - 1) = Fin 0
   \<and> isFinite (calculateDailyReturns examplePrices ! (2 - 1))"
  using C1_daily_return_formula [of 1 examplePrices] C1_daily_return_formula [of 2 examplePrices]
  by (simp add: examplePrices_def)

section \<open>Maps and the loop over the instruments\<close>

lemma mapGet_mapSet: "mapGet (mapSet k v m) k' = (if k' = k then Some v else mapGet m k')"
  by (simp add: mapGet_def mapSet_def update_conv')

lemma keys_mapSet:
  "map fst (mapSet k v m) = (if k \<in> set (map fst m) then map fst m else map fst m @ [k])"
  by (simp add: mapSet_def update_keys)

lemma distinct_mapSet: "distinct (map fst m) \<Longrightarrow> distinct (map fst (mapSet k v m))"
  by (simp add: keys_mapSet)

lemma instrumentsLoop_step:
  "instrumentsLoop allPriceData returnsData (instrument # rest) =
     instrumentsLoop allPriceData
       (mapSet (symbol instrument) (seriesFor allPriceData (symbol instrument)) returnsData) rest"
  by (simp add: seriesFor_def split: option.split)

lemma mapGet_instrumentsLoop:
  "mapGet (instrumentsLoop allPriceData returnsData instrs) s =
     (if s \<in> symbol ` set instrs then Some (seriesFor allPriceData s) else mapGet returnsData s)"
proof (induction instrs arbitrary: returnsData)
  case Nil
  show ?case by simp
next
  case (Cons instrument rest)
  show ?case
    unfolding instrumentsLoop_step Cons.IH
    by (auto simp: mapGet_mapSet)
qed

lemma keys_instrumentsLoop:
  "fst ` set (instrumentsLoop allPriceData returnsData instrs) =
     fst ` set returnsData \<union> symbol ` set instrs"
proof (induction instrs arbitrary: returnsData)
  case Nil
  show ?case by simp
next
  case (Cons instrument rest)
  show ?case
    unfolding instrumentsLoop_step Cons.IH
    by (auto simp: mapSet_def dom_update)
qed

lemma distinct_instrumentsLoop:
  "distinct (map fst returnsData) \<Longrightarrow>
   distinct (map fst (instrumentsLoop allPriceData returnsData instrs))"
proof (induction instrs arbitrary: returnsData)
  case Nil
  then show ?case by simp
next
  case (Cons instrument rest)
  show ?case
    unfolding instrumentsLoop_step
    by (rule Cons.IH) (rule distinct_mapSet [OF Cons.prems])
qed

lemma instrumentsLoop_cong:
  "(\<And>s. mapGet all1 s = mapGet all2 s) \<Longrightarrow>
   instrumentsLoop all1 returnsData instrs = instrumentsLoop all2 returnsData instrs"
proof (induction instrs arbitrary: returnsData)
  case Nil
  show ?case by simp
next
  case (Cons instrument rest)
  have "seriesFor all1 (symbol instrument) = seriesFor all2 (symbol instrument)"
    by (simp add: seriesFor_def Cons.prems)
  then show ?case
    unfolding instrumentsLoop_step using Cons.IH [OF Cons.prems] by simp
qed

section \<open>Properties of the provider\<close>

text \<open>
  C10. The keys of the map that \<open>getHistoricalData\<close> returns are exactly the symbols
  of the instruments it was given, whatever the source holds (readable or not): a
  symbol of the source that was not asked for is not a key, and a symbol asked for
  twice is one key.
\<close>

theorem C10_result_keys:
  "set (mapKeys (getHistoricalData parseDate file instrs)) = symbol ` set instrs
   \<and> distinct (mapKeys (getHistoricalData parseDate file instrs))"
  by (simp add: getHistoricalData_def mapKeys_def keys_instrumentsLoop distinct_instrumentsLoop)

section \<open>What \<open>parseCsvData\<close> returns\<close>

lemma mapGet_pushRecord:
  "mapGet (pushRecord s r data) k =
     (if k = s then Some ((case mapGet data s of None \<Rightarrow> [] | Some arr \<Rightarrow> arr) @ [r])
      else mapGet data k)"
  by (simp add: pushRecord_def mapHas_def mapGet_def mapSet_def update_conv' Let_def
           split: option.split)

lemma distinct_pushRecord:
  "distinct (map fst data) \<Longrightarrow> distinct (map fst (pushRecord s r data))"
  by (simp add: pushRecord_def Let_def distinct_mapSet split: option.split)

lemma observations_Nil [simp]: "observations [] k = []"
  by (simp add: observations_def)

lemma observations_Cons:
  "observations ((s, r) # recs) k =
     (if s = k then r # observations recs k else observations recs k)"
  by (simp add: observations_def)

lemma rowRecords_Cons:
  "rowRecords parseDate (row # rows) =
     (case rowRecord parseDate row of
        None \<Rightarrow> rowRecords parseDate rows
      | Some sr \<Rightarrow> sr # rowRecords parseDate rows)"
  by (simp add: rowRecords_def split: option.split)

lemma mapGet_rowsLoop:
  "mapGet (rowsLoop parseDate data rows) k =
     (case mapGet data k of
        None \<Rightarrow>
          if observations (rowRecords parseDate rows) k = [] then None
          else Some (observations (rowRecords parseDate rows) k)
      | Some arr \<Rightarrow> Some (arr @ observations (rowRecords parseDate rows) k))"
proof (induction rows arbitrary: data)
  case Nil
  show ?case by (simp add: rowRecords_def split: option.split)
next
  case (Cons row rows)
  show ?case
  proof (cases "rowRecord parseDate row")
    case None
    then have eq: "rowRecords parseDate (row # rows) = rowRecords parseDate rows"
      by (simp add: rowRecords_Cons)
    show ?thesis
      unfolding eq using Cons.IH [of data] None by simp
  next
    case (Some sr)
    obtain s r where sr: "sr = (s, r)" by (cases sr)
    with Some have eq: "rowRecords parseDate (row # rows) = (s, r) # rowRecords parseDate rows"
      by (simp add: rowRecords_Cons)
    have step: "rowsLoop parseDate data (row # rows) = rowsLoop parseDate (pushRecord s r data) rows"
      using Some sr by simp
    show ?thesis
      unfolding eq step Cons.IH [of "pushRecord s r data"] mapGet_pushRecord observations_Cons
      by (cases "k = s"; cases "mapGet data k"; cases "mapGet data s"; simp)
  qed
qed

lemma distinct_rowsLoop:
  "distinct (map fst data) \<Longrightarrow> distinct (map fst (rowsLoop parseDate data rows))"
proof (induction rows arbitrary: data)
  case Nil
  then show ?case by simp
next
  case (Cons row rows)
  then show ?case
    by (simp add: distinct_pushRecord split: option.split prod.split)
qed

lemma mapGet_None_iff: "mapGet m k = None \<longleftrightarrow> k \<notin> set (mapKeys m)"
  by (simp add: mapGet_def mapKeys_def map_of_eq_None_iff)

lemma mapGet_sortLoop:
  "distinct symbols \<Longrightarrow>
   mapGet (sortLoop data symbols) k =
     (if k \<in> set symbols then map_option (sortBy byDate) (mapGet data k) else mapGet data k)"
proof (induction symbols arbitrary: data)
  case Nil
  show ?case by simp
next
  case (Cons symbol symbols)
  from Cons.prems have d: "distinct symbols" and n: "symbol \<notin> set symbols"
    by simp_all
  show ?case
  proof (cases "mapGet data symbol")
    case None
    then show ?thesis
      using Cons.IH [OF d, of data] n by auto
  next
    case (Some arr)
    then show ?thesis
      using Cons.IH [OF d, of "mapSet symbol (sortBy byDate arr) data"] n
      by (auto simp: mapGet_mapSet)
  qed
qed

lemma sortBy_Nil [simp]: "sortBy cmp [] = []"
  by (simp add: sortBy_def)

lemma sortBy_Cons: "sortBy cmp (x # xs) = insertBy cmp x (sortBy cmp xs)"
  by (simp add: sortBy_def)

lemma mset_insertBy: "mset (insertBy cmp x xs) = add_mset x (mset xs)"
  by (induction xs) simp_all

lemma mset_sortBy: "mset (sortBy cmp xs) = mset xs"
  by (induction xs) (simp_all add: sortBy_Cons mset_insertBy)

lemma length_sortBy: "length (sortBy cmp xs) = length xs"
  using mset_sortBy [of cmp xs] by (metis size_mset)

lemma sortBy_eq_Nil_iff: "sortBy cmp xs = [] \<longleftrightarrow> xs = []"
  using length_sortBy [of cmp xs] by (metis length_0_conv)

lemma mapGet_parseCsvData_readable:
  "mapGet (parseCsvData parseDate (Inr fileContent)) k =
     (if observations (rowRecords parseDate (dataRows fileContent)) k = [] then None
      else Some (sortBy byDate (observations (rowRecords parseDate (dataRows fileContent)) k)))"
proof -
  let ?data = "rowsLoop parseDate [] (dataRows fileContent)"
  have "distinct (mapKeys ?data)"
    unfolding mapKeys_def by (rule distinct_rowsLoop) simp
  then have "mapGet (sortLoop ?data (mapKeys ?data)) k =
      (if k \<in> set (mapKeys ?data) then map_option (sortBy byDate) (mapGet ?data k)
       else mapGet ?data k)"
    by (rule mapGet_sortLoop)
  moreover have "k \<notin> set (mapKeys ?data) \<Longrightarrow> mapGet ?data k = None"
    by (simp add: mapGet_None_iff)
  ultimately have "mapGet (sortLoop ?data (mapKeys ?data)) k =
      map_option (sortBy byDate) (mapGet ?data k)"
    by (cases "k \<in> set (mapKeys ?data)") simp_all
  moreover have "mapGet ?data k =
      (if observations (rowRecords parseDate (dataRows fileContent)) k = [] then None
       else Some (observations (rowRecords parseDate (dataRows fileContent)) k))"
    unfolding mapGet_rowsLoop by (simp add: mapGet_def)
  ultimately show ?thesis
    by (simp add: parseCsvData_def tryBody_def dataRows_def Let_def)
qed

lemma parseCsvData_unreadable: "parseCsvData parseDate (Inl e) = []"
  by (simp add: parseCsvData_def tryBody_def)

lemma priceHistory_readable:
  "priceHistory parseDate (Inr fileContent) k =
     sortBy byDate (observations (rowRecords parseDate (dataRows fileContent)) k)"
  by (simp add: priceHistory_def mapGet_parseCsvData_readable)

lemma priceHistory_unreadable: "priceHistory parseDate (Inl e) k = []"
  by (simp add: priceHistory_def parseCsvData_unreadable mapGet_def)

lemma seriesFor_priceHistory:
  "seriesFor (parseCsvData parseDate file) s =
     (if 1 < length (priceHistory parseDate file s)
      then calculateDailyReturns (priceHistory parseDate file s) else [])"
  by (simp add: seriesFor_def priceHistory_def split: option.split)

lemma mapGet_getHistoricalData:
  "mapGet (getHistoricalData parseDate file instrs) s =
     (if s \<in> symbol ` set instrs
      then Some (if 1 < length (priceHistory parseDate file s)
                 then calculateDailyReturns (priceHistory parseDate file s) else [])
      else None)"
  unfolding getHistoricalData_def mapGet_instrumentsLoop seriesFor_priceHistory
  by (simp add: mapGet_def)

lemma exampleFile_A:
  "priceHistory isoDate (Inr exampleFile) ''A'' =
     [\<lparr>date = Some 1704067200000, price = Fin 100\<rparr>,
      \<lparr>date = Some 1704153600000, price = Fin 105\<rparr>,
      \<lparr>date = Some 1704240000000, price = Fin (987 / 10)\<rparr>]"
  by code_simp

lemma exampleFile_B:
  "priceHistory isoDate (Inr exampleFile) ''B'' = [\<lparr>date = Some 1704067200000, price = Fin 7\<rparr>]"
  by code_simp

lemma exampleFile_symbols: "sourceSymbols isoDate (Inr exampleFile) = [''A'', ''A'', ''B'', ''A'']"
  by code_simp

text \<open>
  C2. For an instrument of the list, the return series stored under its symbol has
  length \<open>n - 1\<close> when the parsed price history of the symbol has \<open>n \<ge> 2\<close> records,
  and is empty when the history has fewer than two.
\<close>

theorem C2_series_length:
  assumes "inst \<in> set instrs"
  shows "\<exists>series.
           mapGet (getHistoricalData parseDate file instrs) (symbol inst) = Some series
         \<and> (2 \<le> length (priceHistory parseDate file (symbol inst)) \<longrightarrow>
              length series = length (priceHistory parseDate file (symbol inst)) - 1)
         \<and> (length (priceHistory parseDate file (symbol inst)) < 2 \<longrightarrow> series = [])"
proof -
  from assms have "symbol inst \<in> symbol ` set instrs"
    by (rule imageI)
  then show ?thesis
    by (simp add: mapGet_getHistoricalData calculateDailyReturns_length)
qed

theorem C2_series_length_witness:
  "instrumentOf ''1'' ''A'' \<in> set exampleInstruments
   \<and> length (priceHistory isoDate (Inr exampleFile) ''A'') = 3
   \<and> (\<exists>series. mapGet (getHistoricalData isoDate (Inr exampleFile) exampleInstruments) ''A''
                    = Some series \<and> length series = 2)
   \<and> instrumentOf ''2'' ''B'' \<in> set exampleInstruments
   \<and> length (priceHistory isoDate (Inr exampleFile) ''B'') = 1
   \<and> mapGet (getHistoricalData isoDate (Inr exampleFile) exampleInstruments) ''B'' = Some []"
proof -
  have a: "instrumentOf ''1'' ''A'' \<in> set exampleInstruments"
    and b: "instrumentOf ''2'' ''B'' \<in> set exampleInstruments"
    by (simp_all add: exampleInstruments_def)
  show ?thesis
    using C2_series_length [OF a, of isoDate "Inr exampleFile"]
          C2_series_length [OF b, of isoDate "Inr exampleFile"] a b
    by (auto simp: instrumentOf_def exampleFile_A exampleFile_B)
qed

text \<open>
  C3. For every instrument of the list the returned map has an entry under its
  symbol, whatever the source is; the entry is the empty series when no row of the
  source has a record for the symbol (or the source cannot be read), and when the
  symbol has fewer than two observations. \<open>getHistoricalData\<close> has no failing path:
  it is a total function with a map as its result.
\<close>

theorem C3_entry_for_every_instrument:
  assumes "inst \<in> set instrs"
  shows "mapGet (getHistoricalData parseDate file instrs) (symbol inst) \<noteq> None
       \<and> (symbol inst \<notin> set (sourceSymbols parseDate file) \<longrightarrow>
            mapGet (getHistoricalData parseDate file instrs) (symbol inst) = Some [])
       \<and> (length (priceHistory parseDate file (symbol inst)) < 2 \<longrightarrow>
            mapGet (getHistoricalData parseDate file instrs) (symbol inst) = Some [])"
proof -
  from assms have mem: "symbol inst \<in> symbol ` set instrs"
    by (rule imageI)
  have absent: "priceHistory parseDate file (symbol inst) = []"
    if "symbol inst \<notin> set (sourceSymbols parseDate file)"
  proof (cases "file")
    case (Inl e)
    then show ?thesis by (simp add: priceHistory_unreadable)
  next
    case (Inr fileContent)
    with that have "\<forall>kv \<in> set (rowRecords parseDate (dataRows fileContent)). fst kv \<noteq> symbol inst"
      by (force simp: sourceSymbols_def)
    then have "observations (rowRecords parseDate (dataRows fileContent)) (symbol inst) = []"
      by (simp add: observations_def filter_empty_conv)
    with Inr show ?thesis by (simp add: priceHistory_readable)
  qed
  show ?thesis
    using mem absent by (auto simp: mapGet_getHistoricalData)
qed

theorem C3_entry_for_every_instrument_witness:
  "instrumentOf ''3'' ''C'' \<in> set exampleInstruments
   \<and> ''C'' \<notin> set (sourceSymbols isoDate (Inr exampleFile))
   \<and> mapGet (getHistoricalData isoDate (Inr exampleFile) exampleInstruments) ''C'' = Some []
   \<and> instrumentOf ''2'' ''B'' \<in> set exampleInstruments
   \<and> length (priceHistory isoDate (Inr exampleFile) ''B'') < 2
   \<and> mapGet (getHistoricalData isoDate (Inr exampleFile) exampleInstruments) ''B'' = Some []"
proof -
  have c: "instrumentOf ''3'' ''C'' \<in> set exampleInstruments"
    and b: "instrumentOf ''2'' ''B'' \<in> set exampleInstruments"
    by (simp_all add: exampleInstruments_def)
  show ?thesis
    using C3_entry_for_every_instrument [OF c, of isoDate "Inr exampleFile"]
          C3_entry_for_every_instrument [OF b, of isoDate "Inr exampleFile"] c b
    by (simp add: instrumentOf_def exampleFile_symbols exampleFile_B)
qed

text \<open>
  C5. When the source cannot be read, the failure stays inside \<open>parseCsvData\<close>, which
  returns an empty map; \<open>getHistoricalData\<close> then returns the empty series under the
  symbol of every instrument and nothing else, which is also what it returns for a
  source that can be read and has no data row.
\<close>

theorem C5_unreadable_source:
  "tryBody parseDate (Inl e) = Inl e
   \<and> parseCsvData parseDate (Inl e) = []
   \<and> mapGet (getHistoricalData parseDate (Inl e) instrs) s =
       (if s \<in> symbol ` set instrs then Some [] else None)
   \<and> getHistoricalData parseDate (Inl e) instrs = getHistoricalData parseDate (Inr []) instrs"
proof -
  have body: "tryBody parseDate (Inl e) = Inl e"
    by (simp add: tryBody_def)
  have entries: "mapGet (getHistoricalData parseDate (Inl e) instrs) s =
      (if s \<in> symbol ` set instrs then Some [] else None)"
    by (simp add: mapGet_getHistoricalData priceHistory_unreadable)
  have "parseCsvData parseDate (Inr []) = []"
    by (simp add: parseCsvData_def tryBody_def jsSplit_def mapKeys_def)
  then have same: "getHistoricalData parseDate (Inl e) instrs =
      getHistoricalData parseDate (Inr []) instrs"
    by (simp add: getHistoricalData_def parseCsvData_unreadable)
  show ?thesis
    using body entries same parseCsvData_unreadable [of parseDate e] by simp
qed

section \<open>Files and their lines\<close>

lemma splitFrom_no_sep: "sep \<notin> set l \<Longrightarrow> splitFrom sep cur l = [cur @ l]"
  by (induction l arbitrary: cur) auto

lemma splitFrom_line:
  "sep \<notin> set l \<Longrightarrow> splitFrom sep cur (l @ sep # rest) = (cur @ l) # splitFrom sep [] rest"
  by (induction l arbitrary: cur) auto

lemma jsSplit_joinLines:
  "ls \<noteq> [] \<Longrightarrow> CHR 0x0A \<notin> set (concat ls) \<Longrightarrow> jsSplit CHR 0x0A (joinLines ls) = ls"
proof (induction ls rule: joinLines.induct)
  case 1
  then show ?case by simp
next
  case (2 l)
  then show ?case by (simp add: jsSplit_def splitFrom_no_sep)
next
  case (3 l m ls)
  then show ?case by (simp add: jsSplit_def splitFrom_line)
qed

lemma dataRows_joinLines:
  "CHR 0x0A \<notin> set (concat (header # rows)) \<Longrightarrow> dataRows (joinLines (header # rows)) = rows"
  using jsSplit_joinLines [of "header # rows"] by (simp add: dataRows_def)

lemma rowsLoop_append:
  "rowsLoop parseDate data (xs @ ys) = rowsLoop parseDate (rowsLoop parseDate data xs) ys"
  by (induction xs arbitrary: data) simp_all

lemma parseCsvData_rows:
  "parseCsvData parseDate (Inr fileContent) =
     sortLoop (rowsLoop parseDate [] (dataRows fileContent))
       (mapKeys (rowsLoop parseDate [] (dataRows fileContent)))"
  by (simp add: parseCsvData_def tryBody_def dataRows_def Let_def)

lemma incompleteRow_skipped: "incompleteRow row \<Longrightarrow> rowRecord parseDate row = None"
  by (auto simp: incompleteRow_def fieldMissing_def rowRecord_def Let_def split: option.splits)

text \<open>
  C6. A data row whose date, symbol or price field is missing is skipped: it yields
  no record, and the parsed map, and with it the result of \<open>getHistoricalData\<close>, is
  what it would be for the file without that row. Parsing such a file does not fail.
\<close>

theorem C6_incomplete_row_skipped:
  assumes "incompleteRow row"
      and "CHR 0x0A \<notin> set (concat (header # before @ row # after))"
  shows "rowRecord parseDate row = None
       \<and> tryBody parseDate (Inr (joinLines (header # before @ row # after))) =
           Inr (parseCsvData parseDate (Inr (joinLines (header # before @ after))))
       \<and> parseCsvData parseDate (Inr (joinLines (header # before @ row # after))) =
           parseCsvData parseDate (Inr (joinLines (header # before @ after)))
       \<and> getHistoricalData parseDate (Inr (joinLines (header # before @ row # after))) instrs =
           getHistoricalData parseDate (Inr (joinLines (header # before @ after))) instrs"
proof -
  have skipped: "rowRecord parseDate row = None"
    using assms(1) by (rule incompleteRow_skipped)
  have with_row: "dataRows (joinLines (header # before @ row # after)) = before @ row # after"
    using assms(2) by (rule dataRows_joinLines)
  have "CHR 0x0A \<notin> set (concat (header # before @ after))"
    using assms(2) by simp
  then have without_row: "dataRows (joinLines (header # before @ after)) = before @ after"
    by (rule dataRows_joinLines)
  have "rowsLoop parseDate [] (before @ row # after) = rowsLoop parseDate [] (before @ after)"
    using skipped by (simp add: rowsLoop_append)
  then have same: "parseCsvData parseDate (Inr (joinLines (header # before @ row # after))) =
      parseCsvData parseDate (Inr (joinLines (header # before @ after)))"
    by (simp add: parseCsvData_rows with_row without_row)
  have "tryBody parseDate (Inr (joinLines (header # before @ row # after))) =
      Inr (parseCsvData parseDate (Inr (joinLines (header # before @ row # after))))"
    by (simp add: parseCsvData_def tryBody_def Let_def)
  with skipped same show ?thesis
    by (simp add: getHistoricalData_def)
qed

theorem C6_incomplete_row_skipped_witness:
  "incompleteRow ''2024-01-02,A,''
   \<and> CHR 0x0A \<notin> set (concat (''date,symbol,price'' # [''2024-01-01,A,100'']
                                   @ ''2024-01-02,A,'' # [''2024-01-03,A,98.7'']))
   \<and> rowRecord isoDate ''2024-01-02,A,'' = None
   \<and> parseCsvData isoDate
        (Inr (joinLines (''date,symbol,price'' # [''2024-01-01,A,100'']
                           @ ''2024-01-02,A,'' # [''2024-01-03,A,98.7'']))) =
       [(''A'', [\<lparr>date = Some 1704067200000, price = Fin 100\<rparr>,
                 \<lparr>date = Some 1704240000000, price = Fin (987 / 10)\<rparr>])]"
proof -
  have inc: "incompleteRow ''2024-01-02,A,''"
    by code_simp
  have lines: "CHR 0x0A \<notin> set (concat (''date,symbol,price'' # [''2024-01-01,A,100'']
                                   @ ''2024-01-02,A,'' # [''2024-01-03,A,98.7'']))"
    by simp
  have rest: "parseCsvData isoDate
        (Inr (joinLines (''date,symbol,price'' # [''2024-01-01,A,100''] @ [''2024-01-03,A,98.7'']))) =
       [(''A'', [\<lparr>date = Some 1704067200000, price = Fin 100\<rparr>,
                 \<lparr>date = Some 1704240000000, price = Fin (987 / 10)\<rparr>])]"
    by code_simp
  note skipped = C6_incomplete_row_skipped [OF inc lines, of isoDate "[]"]
  from skipped have none: "rowRecord isoDate ''2024-01-02,A,'' = None"
    by (rule conjunct1)
  from skipped have "parseCsvData isoDate
        (Inr (joinLines (''date,symbol,price'' # [''2024-01-01,A,100'']
                           @ ''2024-01-02,A,'' # [''2024-01-03,A,98.7'']))) =
      parseCsvData isoDate
        (Inr (joinLines (''date,symbol,price'' # [''2024-01-01,A,100''] @ [''2024-01-03,A,98.7''])))"
    by (elim conjE)
  then have parsed: "parseCsvData isoDate
        (Inr (joinLines (''date,symbol,price'' # [''2024-01-01,A,100'']
                           @ ''2024-01-02,A,'' # [''2024-01-03,A,98.7'']))) =
       [(''A'', [\<lparr>date = Some 1704067200000, price = Fin 100\<rparr>,
                 \<lparr>date = Some 1704240000000, price = Fin (987 / 10)\<rparr>])]"
    using rest by (rule trans)
  from inc lines none parsed show ?thesis
    by (intro conjI)
qed

lemma incompleteRow_examples:
  "incompleteRow '''' \<and> incompleteRow ''2024-01-02,A'' \<and> incompleteRow '',A,5''
   \<and> incompleteRow ''2024-01-02,,5'' \<and> \<not> incompleteRow ''2024-01-02,A,0''"
  by code_simp

lemma nonNumericFile_records:
  "rowRecords parseDate (dataRows nonNumericFile) =
     [(''A'', \<lparr>date = parseDate ''2024-01-01'', price = NaN\<rparr>),
      (''A'', \<lparr>date = parseDate ''2024-01-02'', price = Fin 100\<rparr>)]"
  by code_simp

lemma two_records_with_NaN:
  "calculateDailyReturns (sortBy byDate [\<lparr>date = d1, price = NaN\<rparr>, \<lparr>date = d2, price = Fin 100\<rparr>])
     = [NaN]"
  by (simp add: sortBy_def calculateDailyReturns_def returnsLoop.simps dailyReturn_def)

text \<open>
  C7. The price field is read with \<open>parseFloat\<close> and not checked: the file
  \<open>nonNumericFile\<close> has two observations of \<open>A\<close>, the first with the price field
  \<open>abc\<close>; the row is kept, its record has the price NaN, and the return series of
  \<open>A\<close> is \<open>[NaN]\<close>, whatever the dates parse to.
\<close>

theorem C7_non_numeric_price_kept:
  "parseFloat ''abc'' = NaN
   \<and> rowRecord parseDate ''2024-01-01,A,abc'' =
       Some (''A'', \<lparr>date = parseDate ''2024-01-01'', price = NaN\<rparr>)
   \<and> length (priceHistory parseDate (Inr nonNumericFile) ''A'') = 2
   \<and> NaN \<in> price ` set (priceHistory parseDate (Inr nonNumericFile) ''A'')
   \<and> getHistoricalData parseDate (Inr nonNumericFile) [instrumentOf ''1'' ''A''] =
       [(''A'', [NaN])]"
proof -
  let ?r1 = "\<lparr>date = parseDate ''2024-01-01'', price = NaN\<rparr>"
  let ?r2 = "\<lparr>date = parseDate ''2024-01-02'', price = Fin 100\<rparr>"
  have pf: "parseFloat ''abc'' = NaN"
    by code_simp
  have rr: "rowRecord parseDate ''2024-01-01,A,abc'' = Some (''A'', ?r1)"
    by code_simp
  have hist: "priceHistory parseDate (Inr nonNumericFile) ''A'' = sortBy byDate [?r1, ?r2]"
    by (simp add: priceHistory_readable nonNumericFile_records observations_def)
  have len: "length (priceHistory parseDate (Inr nonNumericFile) ''A'') = 2"
    by (simp add: hist length_sortBy)
  have "set (sortBy byDate [?r1, ?r2]) = {?r1, ?r2}"
    using mset_sortBy [of byDate "[?r1, ?r2]"] by (metis list.simps(15) empty_set mset_eq_setD)
  then have nan: "NaN \<in> price ` set (priceHistory parseDate (Inr nonNumericFile) ''A'')"
    by (simp add: hist)
  have "mapGet (getHistoricalData parseDate (Inr nonNumericFile) [instrumentOf ''1'' ''A'']) ''A''
      = Some [NaN]"
    using len by (simp add: mapGet_getHistoricalData instrumentOf_def hist two_records_with_NaN)
  moreover have "map fst (getHistoricalData parseDate (Inr nonNumericFile) [instrumentOf ''1'' ''A''])
      = [''A'']"
    by (simp add: getHistoricalData_def instrumentOf_def mapSet_def split: option.split)
  ultimately have res: "getHistoricalData parseDate (Inr nonNumericFile) [instrumentOf ''1'' ''A'']
      = [(''A'', [NaN])]"
    by (cases "getHistoricalData parseDate (Inr nonNumericFile) [instrumentOf ''1'' ''A'']")
       (auto simp: mapGet_def)
  show ?thesis
    using pf rr len nan res by simp
qed

theorem C7_non_numeric_price_kept_witness:
  "rowRecord isoDate ''2024-01-01,A,abc'' =
       Some (''A'', \<lparr>date = Some 1704067200000, price = NaN\<rparr>)
   \<and> priceHistory isoDate (Inr nonNumericFile) ''A'' =
       [\<lparr>date = Some 1704067200000, price = NaN\<rparr>,
        \<lparr>date = Some 1704153600000, price = Fin 100\<rparr>]
   \<and> getHistoricalData isoDate (Inr nonNumericFile) [instrumentOf ''1'' ''A''] =
       [(''A'', [NaN])]"
proof -
  have day: "isoDate ''2024-01-01'' = Some 1704067200000"
    by code_simp
  have hist: "priceHistory isoDate (Inr nonNumericFile) ''A'' =
       [\<lparr>date = Some 1704067200000, price = NaN\<rparr>,
        \<lparr>date = Some 1704153600000, price = Fin 100\<rparr>]"
    by code_simp
  show ?thesis
    using C7_non_numeric_price_kept [of isoDate] day hist by simp
qed

section \<open>Sorting by date\<close>

lemma insertBy_byDate_valid:
  "date x \<noteq> None \<Longrightarrow> None \<notin> date ` set ys \<Longrightarrow>
   insertBy byDate x ys = insort_key (\<lambda>r. the (date r)) x ys"
proof (induction ys)
  case Nil
  show ?case by simp
next
  case (Cons y ys)
  from Cons.prems obtain a b where ab: "date x = Some a" "date y = Some b"
    by (cases "date x"; cases "date y") auto
  have "isPositive (byDate x y) \<longleftrightarrow> \<not> a \<le> b"
    by (simp add: byDate_def ab not_le)
  then show ?case
    using Cons ab by simp
qed

lemma sortBy_byDate_valid:
  "None \<notin> date ` set xs \<Longrightarrow> sortBy byDate xs = sort_key (\<lambda>r. the (date r)) xs"
proof (induction xs)
  case Nil
  show ?case by simp
next
  case (Cons x xs)
  then have "sortBy byDate xs = sort_key (\<lambda>r. the (date r)) xs"
    by simp
  moreover have "date x \<noteq> None" and "None \<notin> date ` set (sort_key (\<lambda>r. the (date r)) xs)"
    using Cons.prems by auto
  ultimately show ?case
    by (simp add: sortBy_Cons insertBy_byDate_valid)
qed

lemma sort_key_permutation:
  assumes "mset xs = mset ys" and "distinct (map f xs)"
  shows "sort_key f xs = sort_key f ys"
proof (rule map_sorted_distinct_set_unique [of f])
  have sets: "set ys = set xs"
    using assms(1) by (metis mset_eq_setD)
  have inj: "inj_on f (set xs)" and dx: "distinct xs"
    using assms(2) by (simp_all add: distinct_map)
  have dy: "distinct ys"
    using assms(1) dx by (metis mset_eq_imp_distinct_iff)
  show "inj_on f (set (sort_key f xs) \<union> set (sort_key f ys))"
    using inj sets by simp
  show "sorted (map f (sort_key f xs))" and "sorted (map f (sort_key f ys))"
    by simp_all
  show "distinct (map f (sort_key f xs))"
    using inj dx by (simp add: distinct_map)
  show "distinct (map f (sort_key f ys))"
    using inj dy sets by (simp add: distinct_map)
  show "set (sort_key f xs) = set (sort_key f ys)"
    using sets by simp
qed

lemma sortBy_byDate_permutation:
  assumes "mset xs = mset ys" and "None \<notin> date ` set xs" and "distinct (map date xs)"
  shows "sortBy byDate xs = sortBy byDate ys"
proof -
  have sets: "set ys = set xs"
    using assms(1) by (metis mset_eq_setD)
  have "inj_on (\<lambda>r. the (date r)) (set xs)"
  proof (rule inj_onI)
    fix x y
    assume x: "x \<in> set xs" and y: "y \<in> set xs" and eq: "the (date x) = the (date y)"
    from x y assms(2) have "date x \<noteq> None" and "date y \<noteq> None"
      by (metis imageI)+
    with eq have "date x = date y"
      by auto
    with x y assms(3) show "x = y"
      by (simp add: distinct_map inj_on_def)
  qed
  moreover have "distinct xs"
    using assms(3) by (simp add: distinct_map)
  ultimately have "distinct (map (\<lambda>r. the (date r)) xs)"
    by (simp add: distinct_map)
  then have "sort_key (\<lambda>r. the (date r)) xs = sort_key (\<lambda>r. the (date r)) ys"
    using assms(1) by (rule sort_key_permutation [rotated])
  then show ?thesis
    using assms(2) sets by (simp add: sortBy_byDate_valid)
qed

section \<open>Permuting the data rows\<close>

lemma mset_rowRecords:
  "mset rows' = mset rows \<Longrightarrow> mset (rowRecords parseDate rows') = mset (rowRecords parseDate rows)"
  by (simp add: rowRecords_def List.map_filter_def)

lemma mset_observations:
  "mset recs' = mset recs \<Longrightarrow> mset (observations recs' k) = mset (observations recs k)"
  by (simp add: observations_def)

lemma observations_member: "r \<in> set (observations recs k) \<Longrightarrow> (k, r) \<in> set recs"
  by (auto simp: observations_def)

lemma observations_valid:
  "None \<notin> set (map (date \<circ> snd) recs) \<Longrightarrow> None \<notin> date ` set (observations recs k)"
  by (force simp: observations_def)

lemma observations_distinct:
  "distinct (map (\<lambda>kv. (fst kv, date (snd kv))) recs) \<Longrightarrow> distinct (map date (observations recs k))"
proof (induction recs)
  case Nil
  show ?case by simp
next
  case (Cons kv recs)
  obtain s r where kv: "kv = (s, r)" by (cases kv)
  from Cons have ih: "distinct (map date (observations recs k))"
    by simp
  show ?case
  proof (cases "s = k")
    case True
    have "date r \<notin> date ` set (observations recs k)"
    proof
      assume "date r \<in> date ` set (observations recs k)"
      then obtain r' where r': "r' \<in> set (observations recs k)" "date r' = date r"
        by auto
      from r'(1) have "(k, r') \<in> set recs"
        by (rule observations_member)
      then have "(k, date r') \<in> (\<lambda>kv. (fst kv, date (snd kv))) ` set recs"
        by force
      with Cons.prems kv True r'(2) show False
        by simp
    qed
    with ih kv True show ?thesis
      by (simp add: observations_Cons)
  next
    case False
    with ih kv show ?thesis
      by (simp add: observations_Cons)
  qed
qed

lemma parseCsvData_permutation:
  assumes "mset rows' = mset rows"
      and "None \<notin> set (map (date \<circ> snd) (rowRecords parseDate rows))"
      and "distinct (map (\<lambda>kv. (fst kv, date (snd kv))) (rowRecords parseDate rows))"
      and "dataRows content' = rows'" and "dataRows content = rows"
  shows "mapGet (parseCsvData parseDate (Inr content')) k =
         mapGet (parseCsvData parseDate (Inr content)) k"
proof -
  let ?obs = "observations (rowRecords parseDate rows) k"
  let ?obs' = "observations (rowRecords parseDate rows') k"
  have m: "mset ?obs = mset ?obs'"
    by (rule mset_observations [OF mset_rowRecords [OF assms(1)], symmetric])
  have "sortBy byDate ?obs = sortBy byDate ?obs'"
    using m observations_valid [OF assms(2)] observations_distinct [OF assms(3)]
    by (rule sortBy_byDate_permutation)
  moreover have "length ?obs = length ?obs'"
    using m by (rule mset_eq_length)
  then have "?obs = [] \<longleftrightarrow> ?obs' = []"
    by (metis length_0_conv)
  ultimately show ?thesis
    unfolding mapGet_parseCsvData_readable assms(4,5) by simp
qed

lemma getHistoricalData_cong:
  "(\<And>k. mapGet (parseCsvData parseDate file1) k = mapGet (parseCsvData parseDate file2) k) \<Longrightarrow>
   getHistoricalData parseDate file1 instrs = getHistoricalData parseDate file2 instrs"
  unfolding getHistoricalData_def by (rule instrumentsLoop_cong)

text \<open>
  C4 (amended). The result of \<open>getHistoricalData\<close> does not depend on the order of
  the data rows of the source, reverse chronological order included, provided the
  rows that yield records have valid dates and no two of them have the same symbol
  and the same date. (Records of one symbol with equal dates keep the order of their
  rows, because the sort is stable and compares dates only.)
\<close>

theorem C4_row_order_independent:
  assumes "mset rows' = mset rows"
      and "CHR 0x0A \<notin> set (concat (header # rows))"
      and "None \<notin> set (map (date \<circ> snd) (rowRecords parseDate rows))"
      and "distinct (map (\<lambda>kv. (fst kv, date (snd kv))) (rowRecords parseDate rows))"
  shows "getHistoricalData parseDate (Inr (joinLines (header # rows'))) instrs =
         getHistoricalData parseDate (Inr (joinLines (header # rows))) instrs"
proof (rule getHistoricalData_cong)
  fix k
  have "set rows' = set rows"
    using assms(1) by (rule mset_eq_setD)
  with assms(2) have "CHR 0x0A \<notin> set (concat (header # rows'))"
    by simp
  then have rows': "dataRows (joinLines (header # rows')) = rows'"
    by (rule dataRows_joinLines)
  have rows: "dataRows (joinLines (header # rows)) = rows"
    using assms(2) by (rule dataRows_joinLines)
  show "mapGet (parseCsvData parseDate (Inr (joinLines (header # rows')))) k =
        mapGet (parseCsvData parseDate (Inr (joinLines (header # rows)))) k"
    using assms(1,3,4) rows' rows by (rule parseCsvData_permutation)
qed

theorem C4_row_order_independent_witness:
  "mset (rev exampleRows) = mset exampleRows
   \<and> CHR 0x0A \<notin> set (concat (''date,symbol,price'' # exampleRows))
   \<and> None \<notin> set (map (date \<circ> snd) (rowRecords isoDate exampleRows))
   \<and> distinct (map (\<lambda>kv. (fst kv, date (snd kv))) (rowRecords isoDate exampleRows))
   \<and> getHistoricalData isoDate (Inr (joinLines (''date,symbol,price'' # rev exampleRows)))
        exampleInstruments =
      getHistoricalData isoDate (Inr (joinLines (''date,symbol,price'' # exampleRows)))
        exampleInstruments
   \<and> getHistoricalData isoDate (Inr (joinLines (''date,symbol,price'' # exampleRows)))
        exampleInstruments =
      [(''A'', [Fin (1 / 20), Fin (- (3 / 50))]), (''B'', []), (''C'', [])]"
proof -
  have perm: "mset (rev exampleRows) = mset exampleRows"
    by simp
  have lines: "CHR 0x0A \<notin> set (concat (''date,symbol,price'' # exampleRows))"
    by (simp add: exampleRows_def)
  have valid: "None \<notin> set (map (date \<circ> snd) (rowRecords isoDate exampleRows))"
    by code_simp
  have dist: "distinct (map (\<lambda>kv. (fst kv, date (snd kv))) (rowRecords isoDate exampleRows))"
    by code_simp
  have val: "getHistoricalData isoDate (Inr (joinLines (''date,symbol,price'' # exampleRows)))
        exampleInstruments =
      [(''A'', [Fin (1 / 20), Fin (- (3 / 50))]), (''B'', []), (''C'', [])]"
    by code_simp
  note same = C4_row_order_independent [OF perm lines valid dist, of exampleInstruments]
  from perm lines valid dist same val show ?thesis
    by (intro conjI)
qed

theorem C4_same_day_rows_counterexample:
  "getHistoricalData isoDate (Inr (joinLines (''date,symbol,price'' # sameDayRows)))
     [instrumentOf ''1'' ''A''] = [(''A'', [Fin 1, Fin (1 / 2)])]
   \<and> getHistoricalData isoDate (Inr (joinLines (''date,symbol,price'' # rev sameDayRows)))
     [instrumentOf ''1'' ''A''] = [(''A'', [Fin (- (1 / 2)), Fin 2])]
   \<and> getHistoricalData isoDate (Inr (joinLines (''date,symbol,price'' # rev sameDayRows)))
     [instrumentOf ''1'' ''A''] \<noteq>
     getHistoricalData isoDate (Inr (joinLines (''date,symbol,price'' # sameDayRows)))
     [instrumentOf ''1'' ''A'']"
proof -
  have chronological: "getHistoricalData isoDate
      (Inr (joinLines (''date,symbol,price'' # sameDayRows))) [instrumentOf ''1'' ''A'']
      = [(''A'', [Fin 1, Fin (1 / 2)])]"
    by code_simp
  have reversed: "getHistoricalData isoDate
      (Inr (joinLines (''date,symbol,price'' # rev sameDayRows))) [instrumentOf ''1'' ''A'']
      = [(''A'', [Fin (- (1 / 2)), Fin 2])]"
    by code_simp
  show ?thesis
    unfolding chronological reversed by simp
qed

section \<open>Properties of the page\<close>

lemma runCalculation_nothing_included:
  "filter included (instruments st) = [] \<Longrightarrow>
   runCalculation server calculateVaR st = st\<lparr>varResults := None, isCalculating := False\<rparr>"
  by (simp add: runCalculation_def)

lemma runCalculation_invokes_engine:
  assumes "filter included (instruments st) \<noteq> []"
      and "server (filter included (instruments st)) = Inr returnsData"
  shows "engineCalls (runCalculation server calculateVaR st) =
           engineCalls st @
             [(filter included (instruments st), newMap returnsData, simulationMethod st)]"
  using assms
  by (simp add: runCalculation_def getHistoricalDataOnClient_def calculationError_def Let_def
           split: sum.split)

text \<open>
  C8. When no instrument of the list is included, \<open>runCalculation\<close> sets the VaR
  result to null and returns: the VaR engine is not invoked (the log of its
  invocations is unchanged), whatever the engine and the server function are, and
  nothing else of the state changes but the \<open>isCalculating\<close> flag, which is reset.
\<close>

theorem C8_no_included_instrument:
  assumes "filter included (instruments st) = []"
  shows "varResults (runCalculation server calculateVaR st) = None
       \<and> engineCalls (runCalculation server calculateVaR st) = engineCalls st
       \<and> runCalculation server calculateVaR st = st\<lparr>varResults := None, isCalculating := False\<rparr>"
  using assms by (simp add: runCalculation_nothing_included)

theorem C8_no_included_instrument_witness:
  "filter included (instruments staleState) = []
   \<and> instruments staleState \<noteq> []
   \<and> varResults staleState = Some 7
   \<and> varResults (runCalculation exampleServer exampleEngine staleState) = None
   \<and> engineCalls (runCalculation exampleServer exampleEngine staleState) = []"
proof -
  have none: "filter included (instruments staleState) = []"
    by (simp add: staleState_def excludedState_def portfolioA_def toggleInstrument_def
          addInstrument_def initialState_def)
  have more: "instruments staleState \<noteq> []" "varResults staleState = Some 7"
      "engineCalls staleState = []"
    by (simp_all add: staleState_def excludedState_def portfolioA_def toggleInstrument_def
          addInstrument_def initialState_def)
  show ?thesis
    using C8_no_included_instrument [OF none, of exampleServer exampleEngine] none more
    by simp
qed

lemma find_Some_found: "find P xs = Some x \<Longrightarrow> x \<in> set xs \<and> P x"
  by (induction xs) (auto split: if_splits)

lemma symbols_addInstrument:
  "map symbol (instruments (addInstrument rendered uuid instrument st)) =
     (if new_symbol instrument \<in> set (map symbol rendered)
      then map symbol (instruments st)
      else map symbol (instruments st) @ [new_symbol instrument])"
proof (cases "find (\<lambda>inst. symbol inst = new_symbol instrument) rendered")
  case None
  then have "new_symbol instrument \<notin> set (map symbol rendered)"
    by (auto simp: find_None_iff)
  with None show ?thesis
    by (simp add: addInstrument_def)
next
  case (Some existingInstrument)
  then have "existingInstrument \<in> set rendered"
    and "symbol existingInstrument = new_symbol instrument"
    by (auto dest: find_Some_found)
  then have "new_symbol instrument \<in> set (map symbol rendered)"
    by force
  with Some show ?thesis
    by (simp add: addInstrument_def)
qed

lemma addInstrument_existing:
  "new_symbol instrument \<in> set (map symbol rendered) \<Longrightarrow>
   instruments (addInstrument rendered uuid instrument st) = instruments st"
proof -
  assume "new_symbol instrument \<in> set (map symbol rendered)"
  then have "find (\<lambda>inst. symbol inst = new_symbol instrument) rendered \<noteq> None"
    by (auto simp: find_None_iff)
  then show ?thesis
    by (auto simp: addInstrument_def)
qed

lemma distinct_addInstrument:
  "distinct (map symbol (instruments st)) \<Longrightarrow>
   distinct (map symbol (instruments (addInstrument (instruments st) uuid instrument st)))"
  by (simp add: symbols_addInstrument)

lemma distinct_removeInstrument:
  "distinct (map symbol (instruments st)) \<Longrightarrow>
   distinct (map symbol (instruments (removeInstrument ident st)))"
  by (simp add: removeInstrument_def distinct_map_filter)

lemma symbols_toggleInstrument:
  "map symbol (instruments (toggleInstrument ident st)) = map symbol (instruments st)"
  by (simp add: toggleInstrument_def comp_def if_distrib [of symbol] cong: if_cong)

lemma distinct_toggleInstrument:
  "distinct (map symbol (instruments st)) \<Longrightarrow>
   distinct (map symbol (instruments (toggleInstrument ident st)))"
  by (simp add: symbols_toggleInstrument)

lemma current_render_keeps_distinct:
  assumes "distinct (map symbol (instruments st))"
  shows "distinct (map symbol (instruments (addInstrument (instruments st) uuid instrument st)))"
    and "distinct (map symbol (instruments (removeInstrument ident st)))"
    and "distinct (map symbol (instruments (toggleInstrument ident st)))"
  using assms
  by (simp_all add: distinct_addInstrument distinct_removeInstrument distinct_toggleInstrument)

text \<open>
  C9. The instrument list does not keep the symbols pairwise different on every run.
  \<open>addInstrument\<close> looks for the symbol in the list of the render that created the
  handler and appends to the list of the state at the time of the update. Called from
  the render of the current list it leaves the list as it is when the symbol is
  already there (\<open>addInstrument_existing\<close>), and the three handlers then keep the
  symbols pairwise different (\<open>current_render_keeps_distinct\<close>). Called twice for
  the symbol \<open>A\<close> from the initial render, both calls find the empty list, neither is
  rejected, and the list of the page becomes \<open>[A, A]\<close>: a reachable state with two
  instruments of the same symbol.
\<close>

theorem C9_two_adds_from_one_render:
  "reachable (instruments (initialState :: (unit, nat) PageState)) twoAdds
   \<and> map symbol (instruments portfolioA) = [''A'']
   \<and> map symbol (instruments twoAdds) = [''A'', ''A'']
   \<and> \<not> distinct (map symbol (instruments twoAdds))
   \<and> map inst_id (instruments twoAdds) = [''u1'', ''u2'']
   \<and> toasts twoAdds = []
   \<and> instruments (addInstrument (instruments portfolioA) ''u2''
                     \<lparr>new_symbol = ''A'', new_details = ()\<rparr> portfolioA) =
       instruments portfolioA"
proof -
  have start: "instruments (initialState :: (unit, nat) PageState) = []"
    by (simp add: initialState_def)
  have "reachable [] (initialState :: (unit, nat) PageState)"
    using start by (rule reachable.initial)
  then have "reachable [] portfolioA"
    unfolding portfolioA_def start by (rule reachable.add)
  then have "reachable [] twoAdds"
    unfolding twoAdds_def start by (rule reachable.add)
  then have run: "reachable (instruments (initialState :: (unit, nat) PageState)) twoAdds"
    by (simp add: start)
  have one: "map symbol (instruments portfolioA) = [''A'']"
    by (simp add: portfolioA_def addInstrument_def initialState_def)
  have two: "map symbol (instruments twoAdds) = [''A'', ''A'']"
    by (simp add: twoAdds_def portfolioA_def addInstrument_def initialState_def)
  have ids: "map inst_id (instruments twoAdds) = [''u1'', ''u2'']"
    by (simp add: twoAdds_def portfolioA_def addInstrument_def initialState_def)
  have quiet: "toasts twoAdds = []"
    by (simp add: twoAdds_def portfolioA_def addInstrument_def initialState_def)
  have "new_symbol \<lparr>new_symbol = ''A'', new_details = ()\<rparr> \<in> set (map symbol (instruments portfolioA))"
    by (simp add: one)
  then have rejected: "instruments (addInstrument (instruments portfolioA) ''u2''
                     \<lparr>new_symbol = ''A'', new_details = ()\<rparr> portfolioA) =
       instruments portfolioA"
    by (rule addInstrument_existing)
  from two have dup: "\<not> distinct (map symbol (instruments twoAdds))"
    by simp
  from run one two dup ids quiet rejected show ?thesis
    by (intro conjI)
qed

end
